theory Spec2Isabelle
  imports Main "HOL-Library.Sublist"
begin

section \<open>The generate command of acs-engine (cmd/generate.go)\<close>

text \<open>
  A shallow embedding of \<^verbatim>\<open>src/cmd/generate.go\<close>. Go pointers are \<open>option\<close>
  values (\<open>None\<close> is \<^verbatim>\<open>nil\<close>), a nil dereference is the outcome \<open>Panic\<close>, an
  \<^verbatim>\<open>error\<close> return is a value of the type \<open>error\<close>, and the receiver
  \<^verbatim>\<open>gc\<close>, which the methods mutate in place, is passed in and returned.
\<close>

subsection \<open>Errors and outcomes\<close>

text \<open>
  The errors of package \<^verbatim>\<open>os\<close> are path errors (operation, path, cause), and
  \<open>os_Error\<close> is their method \<^verbatim>\<open>Error()\<close>. An \<^verbatim>\<open>error\<close> of the program
  is such an error passed on, the value of \<^verbatim>\<open>errors.New(msg)\<close>, the value of
  \<^verbatim>\<open>fmt.Errorf(f)\<close>, or an error of package \<^verbatim>\<open>encoding/json\<close> with its message.
  The source always calls \<^verbatim>\<open>fmt.Errorf\<close> with one argument, a string it has formatted
  already; \<open>Errorf f\<close> keeps that string (it is the message too, unless it contains a
  percent sign, which \<^verbatim>\<open>fmt\<close> reads as a verb).
\<close>

datatype errno = ENOENT | EACCES | EISDIR

datatype oserror = PathError string string errno

datatype error = OsError oserror | New string | Errorf string | JsonError string

fun strerror :: "errno \<Rightarrow> string" where
  "strerror ENOENT = ''no such file or directory''"
| "strerror EACCES = ''permission denied''"
| "strerror EISDIR = ''is a directory''"

fun os_Error :: "oserror \<Rightarrow> string" where
  "os_Error (PathError opn p e) = opn @ '' '' @ p @ '': '' @ strerror e"

fun os_IsNotExist :: "oserror option \<Rightarrow> bool" where
  "os_IsNotExist (Some (PathError opn p ENOENT)) = True"
| "os_IsNotExist _ = False"

text \<open>A call either panics (nil pointer dereference) or returns.\<close>

datatype 'a result = Panic | Return 'a

subsection \<open>The file system\<close>

text \<open>
  What the program can observe of a path: nothing is there, a file that cannot be opened
  for reading, a directory (it opens, and reading it fails), or a regular file with its
  bytes.
\<close>

datatype entry = Missing | NoAccess | Directory | Regular string

record world =
  files :: "string \<Rightarrow> entry"

definition os_Stat :: "world \<Rightarrow> string \<Rightarrow> oserror option" where
  "os_Stat w p = (case files w p of Missing \<Rightarrow> Some (PathError ''stat'' p ENOENT) | _ \<Rightarrow> None)"

definition os_Open :: "world \<Rightarrow> string \<Rightarrow> oserror + (string \<times> entry)" where
  "os_Open w p =
     (case files w p of
        Missing \<Rightarrow> Inl (PathError ''open'' p ENOENT)
      | NoAccess \<Rightarrow> Inl (PathError ''open'' p EACCES)
      | e \<Rightarrow> Inr (p, e))"

fun ioutil_ReadAll :: "string \<times> entry \<Rightarrow> oserror + string" where
  "ioutil_ReadAll (p, Regular bs) = Inr bs"
| "ioutil_ReadAll (p, Directory) = Inl (PathError ''read'' p EISDIR)"
| "ioutil_ReadAll (p, NoAccess) = Inl (PathError ''read'' p EACCES)"
| "ioutil_ReadAll (p, Missing) = Inl (PathError ''read'' p ENOENT)"

definition ioutil_ReadFile :: "world \<Rightarrow> string \<Rightarrow> oserror + string" where
  "ioutil_ReadFile w p = (case os_Open w p of Inl e \<Rightarrow> Inl e | Inr f \<Rightarrow> ioutil_ReadAll f)"

subsection \<open>Standard library: strings.Replace and path.Join\<close>

text \<open>
  \<^verbatim>\<open>strings.Replace(s, old, new, -1)\<close> for a non-empty \<open>old\<close>: every
  non-overlapping occurrence of \<open>old\<close>, found from the left, becomes \<open>new\<close>.
  The source's only call passes a non-empty literal; with an empty \<open>old\<close> Go inserts
  \<open>new\<close> at every rune boundary, which the function below does not do (it returns
  \<open>s\<close>), so it is only used with a non-empty pattern.
\<close>

fun strings_ReplaceAll :: "string \<Rightarrow> string \<Rightarrow> string \<Rightarrow> string" where
  "strings_ReplaceAll [] old new = []"
| "strings_ReplaceAll (c # cs) old new =
     (if old \<noteq> [] \<and> prefix old (c # cs)
      then new @ strings_ReplaceAll (drop (length old) (c # cs)) old new
      else c # strings_ReplaceAll cs old new)"

text \<open>
  \<^verbatim>\<open>path.Join\<close> drops the leading empty elements, joins the rest with slashes and
  cleans the result. \<^verbatim>\<open>path.Clean\<close> works on the elements between slashes: empty
  elements and \<^verbatim>\<open>.\<close> are dropped, \<^verbatim>\<open>..\<close> removes the element before it when
  there is one that is not itself \<^verbatim>\<open>..\<close>, is dropped at the root, and is kept
  otherwise; an empty result is \<^verbatim>\<open>.\<close>.
\<close>

fun splitSlash :: "string \<Rightarrow> string list" where
  "splitSlash [] = [[]]"
| "splitSlash (c # cs) =
     (if c = CHR ''/'' then [] # splitSlash cs
      else (case splitSlash cs of [] \<Rightarrow> [[c]] | e # es \<Rightarrow> (c # e) # es))"

fun joinSlash :: "string list \<Rightarrow> string" where
  "joinSlash [] = []"
| "joinSlash [e] = e"
| "joinSlash (e # es) = e @ ''/'' @ joinSlash es"

text \<open>\<open>out\<close> is the output so far, last element first.\<close>

fun cleanElems :: "bool \<Rightarrow> string list \<Rightarrow> string list \<Rightarrow> string list" where
  "cleanElems rooted out [] = rev out"
| "cleanElems rooted out (e # es) =
     (if e = [] \<or> e = ''.'' then cleanElems rooted out es
      else if e = ''..'' then
        (if out \<noteq> [] \<and> hd out \<noteq> ''..'' then cleanElems rooted (tl out) es
         else if \<not> rooted then cleanElems rooted (''..'' # out) es
         else cleanElems rooted out es)
      else cleanElems rooted (e # out) es)"

definition path_Clean :: "string \<Rightarrow> string" where
  "path_Clean p =
     (if p = [] then ''.''
      else
        let rooted = (hd p = CHR ''/'');
            body = joinSlash (cleanElems rooted [] (splitSlash p))
        in if rooted then ''/'' @ body
           else if body = [] then ''.''
           else body)"

definition path_Join :: "string list \<Rightarrow> string" where
  "path_Join elem =
     (case dropWhile (\<lambda>e. e = []) elem of
        [] \<Rightarrow> []
      | es \<Rightarrow> path_Clean (joinSlash es))"

subsection \<open>Data: the api model\<close>

text \<open>
  Modelled from the spec: the type declarations of package \<^verbatim>\<open>api\<close>, which the file
  imports and which are declared outside it. The records have the parts the data model
  names and the file reads or writes: the service principal identity (client id and
  secret), the managed and the hosted master profile with their DNS prefixes, the linux
  profile with its SSH public keys, and the optional certificate profile with the CA
  certificate and the CA private key. The file compares \<^verbatim>\<open>MasterProfile\<close> and
  \<^verbatim>\<open>CertificateProfile\<close> with \<^verbatim>\<open>nil\<close>, assigns a
  \<^verbatim>\<open>*api.ServicePrincipalProfile\<close> to \<^verbatim>\<open>ServicePrincipalProfile\<close>, and updates the
  properties through a copy of \<^verbatim>\<open>gc.containerService.Properties\<close>: these are
  pointers, as are the other profiles and the properties of a container service.
\<close>

record ServicePrincipalProfile =
  ClientID :: string
  Secret :: string

record MasterProfile =
  DNSPrefix :: string

record HostedMasterProfile =
  HostedDNSPrefix :: string

record PublicKey =
  KeyData :: string

record SSH =
  PublicKeys :: "PublicKey list"

record LinuxProfile =
  AdminUsername :: string
  SSH :: SSH

record CertificateProfile =
  CaCertificate :: string
  CaPrivateKey :: string

record Properties =
  ServicePrincipalProfile :: "ServicePrincipalProfile option"
  MasterProfile :: "MasterProfile option"
  HostedMasterProfile :: "HostedMasterProfile option"
  LinuxProfile :: "LinuxProfile option"
  CertificateProfile :: "CertificateProfile option"

record ContainerService =
  Properties :: "Properties option"

text \<open>\<^verbatim>\<open>&api.CertificateProfile{}\<close>: every field at its zero value.\<close>

definition newCertificateProfile :: CertificateProfile where
  "newCertificateProfile = \<lparr>CaCertificate = [], CaPrivateKey = []\<rparr>"

record Model =
  APIVersion :: string
  Props :: Properties

record GenConf =
  ApiConfPath :: string
  OutDir :: string
  Name :: string
  SSHKey :: string
  CliProfile :: "ServicePrincipalProfile option"

record generateCmd =
  apimodelPath :: string
  outputDirectory :: string
  caCertificatePath :: string
  caPrivateKeyPath :: string
  classicMode :: bool
  noPrettyPrint :: bool
  parametersOnly :: bool
  containerService :: "ContainerService option"
  apiVersion :: string
  gcLocale :: "string option"

text \<open>\<^verbatim>\<open>generateCmd{}\<close>: every field at its zero value.\<close>

definition newGenerateCmdStruct :: generateCmd where
  "newGenerateCmdStruct =
     \<lparr>apimodelPath = [], outputDirectory = [], caCertificatePath = [], caPrivateKeyPath = [],
      classicMode = False, noPrettyPrint = False, parametersOnly = False,
      containerService = None, apiVersion = [], gcLocale = None\<rparr>"

subsection \<open>External collaborators\<close>

text \<open>
  The JSON codec, the api loader and the translation loader are not part of this file:
  they are parameters. An error of theirs is given by its message.
  \<open>DeserializeContainerService\<close> stands for the call
  \<^verbatim>\<open>apiloader.DeserializeContainerService(bytes, true, nil)\<close> of a loader built with
  the given locale; it returns the container service, the API version and the error.
  \<open>LoadTranslations\<close> returns the locale and the error.
\<close>

record ext =
  json_Unmarshal :: "string \<Rightarrow> string + Model"
  json_Marshal :: "Model \<Rightarrow> string + string"
  DeserializeContainerService ::
    "string option \<Rightarrow> string \<Rightarrow> ContainerService option \<times> string \<times> string option"
  LoadTranslations :: "string option \<times> string option"

subsection \<open>NewGenerator and getContService\<close>

text \<open>Lines 69 to 71 of \<^verbatim>\<open>NewGenerator\<close>: the overrides of the configuration.\<close>

definition applyOverrides :: "GenConf \<Rightarrow> Model \<Rightarrow> Model result" where
  "applyOverrides conf model =
     (let props1 = (Props model)\<lparr>ServicePrincipalProfile := CliProfile conf\<rparr> in
      case MasterProfile props1 of
        None \<Rightarrow> Panic
      | Some mp \<Rightarrow>
          let props2 = props1\<lparr>MasterProfile := Some (mp\<lparr>DNSPrefix := Name conf\<rparr>)\<rparr> in
          (case LinuxProfile props2 of
             None \<Rightarrow> Panic
           | Some lp \<Rightarrow>
               Return (model\<lparr>Props := props2\<lparr>LinuxProfile :=
                 Some (lp\<lparr>SSH := (SSH lp)\<lparr>PublicKeys := [\<lparr>KeyData = SSHKey conf\<rparr>]\<rparr>\<rparr>)\<rparr>\<rparr>)))"

text \<open>The literal \<^verbatim>\<open>"subnet":"",\<close> of line 124, quotes included.\<close>

definition subnetPattern :: string where
  "subnetPattern =
     [CHR 0x22] @ ''subnet'' @ [CHR 0x22] @ '':'' @ [CHR 0x22, CHR 0x22] @ '',''"

text \<open>Line 124: the transform applied to the serialized model.\<close>

definition stripEmptySubnet :: "string \<Rightarrow> string" where
  "stripEmptySubnet contents = strings_ReplaceAll contents subnetPattern []"

definition getContService :: "ext \<Rightarrow> generateCmd \<Rightarrow> Model \<Rightarrow> error option \<times> generateCmd" where
  "getContService x gc m =
     (case json_Marshal x m of
        Inl msg \<Rightarrow> (Some (JsonError msg), gc)
      | Inr contents \<Rightarrow>
          let scont = stripEmptySubnet contents in
          (case DeserializeContainerService x (gcLocale gc) scont of
             (cs, ver, err) \<Rightarrow>
               let gc' = gc\<lparr>containerService := cs, apiVersion := ver\<rparr> in
               (case err of
                  Some msg \<Rightarrow> (Some (Errorf (''error parsing the api model: '' @ msg)), gc')
                | None \<Rightarrow> (None, gc'))))"

definition NewGenerator :: "ext \<Rightarrow> world \<Rightarrow> GenConf \<Rightarrow> (error + generateCmd) result" where
  "NewGenerator x w conf =
     (case os_Open w (ApiConfPath conf) of
        Inl err \<Rightarrow> Return (Inl (OsError err))
      | Inr f \<Rightarrow>
          (case ioutil_ReadAll f of
             Inl err \<Rightarrow> Return (Inl (OsError err))
           | Inr data \<Rightarrow>
               (case json_Unmarshal x data of
                  Inl msg \<Rightarrow> Return (Inl (JsonError msg))
                | Inr model0 \<Rightarrow>
                    (case applyOverrides conf model0 of
                       Panic \<Rightarrow> Panic
                     | Return model \<Rightarrow>
                         let gen = newGenerateCmdStruct
                                     \<lparr>apimodelPath := ApiConfPath conf,
                                      outputDirectory := OutDir conf\<rparr> in
                         (case getContService x gen model of
                            (Some err, gen') \<Rightarrow> Return (Inl err)
                          | (None, gen') \<Rightarrow> Return (Inr gen'))))))"

subsection \<open>validatef\<close>

text \<open>Lines 144 to 150: the output directory, when none was given.\<close>

definition deriveOutputDirectory :: "generateCmd \<Rightarrow> generateCmd result" where
  "deriveOutputDirectory gc =
     (if outputDirectory gc = [] then
        (case containerService gc of
           None \<Rightarrow> Panic
         | Some cs \<Rightarrow>
             (case Properties cs of
                None \<Rightarrow> Panic
              | Some prop \<Rightarrow>
                  (case MasterProfile prop of
                     Some mp \<Rightarrow>
                       Return (gc\<lparr>outputDirectory := path_Join [''_output'', DNSPrefix mp]\<rparr>)
                   | None \<Rightarrow>
                       (case HostedMasterProfile prop of
                          None \<Rightarrow> Panic
                        | Some hp \<Rightarrow>
                            Return (gc\<lparr>outputDirectory :=
                              path_Join [''_output'', HostedDNSPrefix hp]\<rparr>)))))
      else Return gc)"

text \<open>Lines 152 to 172: the CA certificate and the CA private key.\<close>

definition consumeCAPaths :: "world \<Rightarrow> generateCmd \<Rightarrow> (error option \<times> generateCmd) result" where
  "consumeCAPaths w gc =
     (if (caCertificatePath gc \<noteq> [] \<and> caPrivateKeyPath gc = [])
         \<or> (caCertificatePath gc = [] \<and> caPrivateKeyPath gc \<noteq> [])
      then Return (Some (New
             ''--ca-certificate-path and --ca-private-key-path must be specified together''), gc)
      else if caCertificatePath gc \<noteq> [] then
        (case ioutil_ReadFile w (caCertificatePath gc) of
           Inl err \<Rightarrow>
             Return (Some (Errorf (''failed to read CA certificate file: '' @ os_Error err)), gc)
         | Inr caCertificateBytes \<Rightarrow>
             (case ioutil_ReadFile w (caPrivateKeyPath gc) of
                Inl err \<Rightarrow>
                  Return (Some (Errorf
                    (''failed to read CA private key file: '' @ os_Error err)), gc)
              | Inr caKeyBytes \<Rightarrow>
                  (case containerService gc of
                     None \<Rightarrow> Panic
                   | Some cs \<Rightarrow>
                       (case Properties cs of
                          None \<Rightarrow> Panic
                        | Some prop \<Rightarrow>
                            let cp = (case CertificateProfile prop of
                                        None \<Rightarrow> newCertificateProfile
                                      | Some cp0 \<Rightarrow> cp0);
                                cp' = cp\<lparr>CaCertificate := caCertificateBytes,
                                        CaPrivateKey := caKeyBytes\<rparr>;
                                cs' = cs\<lparr>Properties :=
                                        Some (prop\<lparr>CertificateProfile := Some cp'\<rparr>)\<rparr>
                            in Return (None, gc\<lparr>containerService := Some cs'\<rparr>)))))
      else Return (None, gc))"

definition validatef :: "world \<Rightarrow> generateCmd \<Rightarrow> (error option \<times> generateCmd) result" where
  "validatef w gc =
     (if os_IsNotExist (os_Stat w (apimodelPath gc))
      then Return (Some (Errorf
             (''specified api model does not exist ('' @ apimodelPath gc @ '')'')), gc)
      else
        (case deriveOutputDirectory gc of
           Panic \<Rightarrow> Panic
         | Return gc1 \<Rightarrow> consumeCAPaths w gc1))"

subsection \<open>The command line: validate and the flags\<close>

text \<open>\<^verbatim>\<open>cmd.Usage()\<close> only prints and is left out.\<close>

definition validate ::
  "ext \<Rightarrow> world \<Rightarrow> string list \<Rightarrow> generateCmd \<Rightarrow> (error option \<times> generateCmd) result" where
  "validate x w args gc =
     (case LoadTranslations x of
        (loc, Some msg) \<Rightarrow>
          Return (Some (Errorf (''error loading translation files: '' @ msg)),
                  gc\<lparr>gcLocale := loc\<rparr>)
      | (loc, None) \<Rightarrow>
          let gc1 = gc\<lparr>gcLocale := loc\<rparr> in
          if apimodelPath gc1 = [] then
            (if length args = 1 then validatef w (gc1\<lparr>apimodelPath := hd args\<rparr>)
             else if length args > 1 then
               Return (Some (New (''too many arguments were provided to '' @ [CHR 0x27]
                 @ ''generate'' @ [CHR 0x27])), gc1)
             else
               Return (Some (New
                 ''--api-model was not supplied, nor was one specified as a positional argument''),
                 gc1))
          else validatef w gc1)"

text \<open>
  \<^verbatim>\<open>newGenerateCmd\<close> starts from \<^verbatim>\<open>generateCmd{}\<close> and binds seven flags to its
  fields; \<^verbatim>\<open>RunE\<close> then calls \<^verbatim>\<open>gc.validate(cmd, args)\<close>.
\<close>

record flags =
  api_model :: string
  output_directory :: string
  ca_certificate_path :: string
  ca_private_key_path :: string
  classic_mode :: bool
  no_pretty_print :: bool
  parameters_only :: bool

definition bindFlags :: "flags \<Rightarrow> generateCmd" where
  "bindFlags f =
     newGenerateCmdStruct
       \<lparr>apimodelPath := api_model f, outputDirectory := output_directory f,
        caCertificatePath := ca_certificate_path f, caPrivateKeyPath := ca_private_key_path f,
        classicMode := classic_mode f, noPrettyPrint := no_pretty_print f,
        parametersOnly := parameters_only f\<rparr>"

definition RunE_validate ::
  "ext \<Rightarrow> world \<Rightarrow> flags \<Rightarrow> string list \<Rightarrow> (error option \<times> generateCmd) result" where
  "RunE_validate x w f args = validate x w args (bindFlags f)"

subsection \<open>Auxiliary notions and example inputs\<close>

text \<open>
  A plain name is a single path element that \<^verbatim>\<open>path.Clean\<close> leaves alone: not empty,
  without a slash, and neither \<^verbatim>\<open>.\<close> nor \<^verbatim>\<open>..\<close>.
\<close>

definition plainName :: "string \<Rightarrow> bool" where
  "plainName p = (p \<noteq> [] \<and> CHR ''/'' \<notin> set p \<and> p \<noteq> ''.'' \<and> p \<noteq> ''..'')"

text \<open>
  A disk with an api model (the empty JSON object), a CA certificate, a CA private key
  and a directory; properties with a managed master profile, and with a hosted one; a
  command built from them; a configuration; external collaborators whose decoder reads
  the empty object as the zero model, every pointer nil; and the flags at their
  defaults.
\<close>

definition exampleDisk :: world where
  "exampleDisk =
     \<lparr>files = (\<lambda>p. if p = ''apimodel.json'' then Regular ''{}''
                    else if p = ''ca.crt'' then Regular ''CERT''
                    else if p = ''ca.key'' then Regular ''KEY''
                    else if p = ''pki'' then Directory
                    else Missing)\<rparr>"

definition exampleProps :: Properties where
  "exampleProps =
     \<lparr>ServicePrincipalProfile = None,
      MasterProfile = Some \<lparr>DNSPrefix = ''mycluster''\<rparr>,
      HostedMasterProfile = None,
      LinuxProfile = Some \<lparr>AdminUsername = ''azureuser'', SSH = \<lparr>PublicKeys = []\<rparr>\<rparr>,
      CertificateProfile = None\<rparr>"

definition hostedProps :: Properties where
  "hostedProps =
     exampleProps\<lparr>MasterProfile := None,
                   HostedMasterProfile := Some \<lparr>HostedDNSPrefix = ''hosted''\<rparr>\<rparr>"

definition exampleCmd :: generateCmd where
  "exampleCmd =
     newGenerateCmdStruct
       \<lparr>apimodelPath := ''apimodel.json'',
        containerService := Some \<lparr>Properties = Some exampleProps\<rparr>\<rparr>"

definition exampleConf :: GenConf where
  "exampleConf =
     \<lparr>ApiConfPath = ''apimodel.json'', OutDir = [], Name = ''mycluster'',
      SSHKey = ''ssh-rsa AAAA'', CliProfile = Some \<lparr>ClientID = ''id'', Secret = ''secret''\<rparr>\<rparr>"

definition zeroProps :: Properties where
  "zeroProps =
     \<lparr>ServicePrincipalProfile = None, MasterProfile = None, HostedMasterProfile = None,
      LinuxProfile = None, CertificateProfile = None\<rparr>"

definition exampleExt :: ext where
  "exampleExt =
     \<lparr>json_Unmarshal = (\<lambda>d. if d = ''{}'' then Inr \<lparr>APIVersion = [], Props = zeroProps\<rparr>
                            else Inl ''unexpected end of JSON input''),
      json_Marshal = (\<lambda>m. Inr ''{}''),
      DeserializeContainerService = (\<lambda>loc bs. (None, [], Some ''unexpected end of JSON input'')),
      LoadTranslations = (Some ''en_US'', None)\<rparr>"

definition exampleFlags :: flags where
  "exampleFlags =
     \<lparr>api_model = [], output_directory = [], ca_certificate_path = [],
      ca_private_key_path = [], classic_mode = False, no_pretty_print = False,
      parameters_only = False\<rparr>"


section \<open>Properties\<close>

subsection \<open>Helper lemmas\<close>


lemma splitSlash_plain: "CHR ''/'' \<notin> set p \<Longrightarrow> splitSlash p = [p]"
  by (induction p) auto

lemma path_Join_plain:
  assumes "plainName p"
  shows "path_Join [''_output'', p] = ''_output/'' @ p"
proof -
  from assms have a: "p \<noteq> []" "CHR ''/'' \<notin> set p" "p \<noteq> ''.''" "p \<noteq> ''..''"
    by (simp_all add: plainName_def)
  have s: "splitSlash (''_output'' @ CHR ''/'' # p) = [''_output'', p]"
    using a(2) by (simp add: splitSlash_plain)
  show ?thesis
    using a s by (simp add: path_Join_def path_Clean_def Let_def del: splitSlash.simps)
qed

lemma path_Join_empty: "path_Join [''_output'', []] = ''_output''"
  by (simp add: path_Join_def path_Clean_def)

lemma os_IsNotExist_Stat: "os_IsNotExist (os_Stat w p) \<longleftrightarrow> files w p = Missing"
  by (simp add: os_Stat_def split: entry.splits)

lemma deriveOutputDirectory_containerService:
  "deriveOutputDirectory gc = Return gc1 \<Longrightarrow> containerService gc1 = containerService gc"
  by (auto simp: deriveOutputDirectory_def split: if_splits option.splits)

lemma deriveOutputDirectory_paths:
  "deriveOutputDirectory gc = Return gc1 \<Longrightarrow>
     caCertificatePath gc1 = caCertificatePath gc \<and> caPrivateKeyPath gc1 = caPrivateKeyPath gc"
  by (auto simp: deriveOutputDirectory_def split: if_splits option.splits)

lemma deriveOutputDirectory_returns:
  assumes "containerService gc = Some cs" and "Properties cs = Some prop"
    and "MasterProfile prop \<noteq> None \<or> HostedMasterProfile prop \<noteq> None"
  shows "\<exists>gc1. deriveOutputDirectory gc = Return gc1"
  using assms by (cases "MasterProfile prop") (auto simp: deriveOutputDirectory_def)

lemma consumeCAPaths_error:
  "consumeCAPaths w gc = Return (Some e, gc') \<Longrightarrow> gc' = gc"
  by (auto simp: consumeCAPaths_def Let_def split: if_splits sum.splits option.splits)

lemma consumeCAPaths_changes:
  assumes "consumeCAPaths w gc = Return (r, gc')"
    and "containerService gc' \<noteq> containerService gc"
  shows "\<exists>c k. ioutil_ReadFile w (caCertificatePath gc) = Inr c
           \<and> ioutil_ReadFile w (caPrivateKeyPath gc) = Inr k"
  using assms
  by (auto simp: consumeCAPaths_def Let_def split: if_splits sum.splits option.splits)

lemma consumeCAPaths_returns:
  assumes "containerService gc = Some cs" and "Properties cs = Some prop"
  shows "\<exists>err gc'. consumeCAPaths w gc = Return (err, gc')
           \<and> outputDirectory gc' = outputDirectory gc"
  using assms by (simp add: consumeCAPaths_def Let_def split: sum.split)

lemma validatef_derives:
  assumes "files w (apimodelPath gc) \<noteq> Missing" and "outputDirectory gc = []"
    and "containerService gc = Some cs" and "Properties cs = Some prop"
    and "MasterProfile prop = Some mp \<and> p = DNSPrefix mp
         \<or> MasterProfile prop = None \<and> HostedMasterProfile prop = Some hp \<and> p = HostedDNSPrefix hp"
  shows "\<exists>err gc'. validatef w gc = Return (err, gc')
           \<and> outputDirectory gc' = path_Join [''_output'', p]"
proof -
  let ?gc1 = "gc\<lparr>outputDirectory := path_Join [''_output'', p]\<rparr>"
  from assms(2-5) have d: "deriveOutputDirectory gc = Return ?gc1"
    by (auto simp: deriveOutputDirectory_def)
  with assms(1) have v: "validatef w gc = consumeCAPaths w ?gc1"
    by (simp add: validatef_def os_IsNotExist_Stat)
  from assms(3,4) have "containerService ?gc1 = Some cs" by simp
  from consumeCAPaths_returns [OF this assms(4)]
  obtain err gc' where c: "consumeCAPaths w ?gc1 = Return (err, gc')"
    and o: "outputDirectory gc' = outputDirectory ?gc1"
    by blast
  from o have "outputDirectory gc' = path_Join [''_output'', p]" by simp
  with v c show ?thesis by auto
qed

subsection \<open>The cleanup transform\<close>



subsection \<open>A document that does not exist\<close>



subsection \<open>Errors leave the model alone\<close>

text \<open>
  Claim C10. Whenever \<^verbatim>\<open>validatef\<close> returns an error, the container service of the
  command, and with it the certificate profile, is what it was before the call; and
  when a call has changed it, the call succeeded and both CA files were read.
\<close>

theorem validatef_error_keeps_model:
  assumes "validatef w gc = Return (r, gc')"
  shows "(r \<noteq> None \<longrightarrow> containerService gc' = containerService gc)
     \<and> (containerService gc' \<noteq> containerService gc \<longrightarrow>
          r = None
          \<and> (\<exists>c k. ioutil_ReadFile w (caCertificatePath gc) = Inr c
                 \<and> ioutil_ReadFile w (caPrivateKeyPath gc) = Inr k))"
proof (cases "os_IsNotExist (os_Stat w (apimodelPath gc))")
  case True
  with assms show ?thesis by (auto simp: validatef_def)
next
  case False
  with assms obtain gc1 where d: "deriveOutputDirectory gc = Return gc1"
    and c: "consumeCAPaths w gc1 = Return (r, gc')"
    by (auto simp: validatef_def split: result.splits)
  from d have m: "containerService gc1 = containerService gc"
    and p: "caCertificatePath gc1 = caCertificatePath gc"
      "caPrivateKeyPath gc1 = caPrivateKeyPath gc"
    by (simp_all add: deriveOutputDirectory_containerService deriveOutputDirectory_paths)
  have 1: "containerService gc' = containerService gc" if "r \<noteq> None"
  proof -
    from that obtain e where "r = Some e" by auto
    with c have "gc' = gc1" by (auto dest: consumeCAPaths_error)
    with m show ?thesis by simp
  qed
  have 2: "\<exists>c k. ioutil_ReadFile w (caCertificatePath gc) = Inr c
                 \<and> ioutil_ReadFile w (caPrivateKeyPath gc) = Inr k"
    if "containerService gc' \<noteq> containerService gc"
    using consumeCAPaths_changes [OF c] that m p by simp
  from 1 2 show ?thesis by blast
qed

theorem validatef_error_keeps_model_witness:
  "validatef exampleDisk (exampleCmd\<lparr>caCertificatePath := ''ca.crt'', caPrivateKeyPath := ''pki''\<rparr>) =
     Return (Some (Errorf ''failed to read CA private key file: read pki: is a directory''),
             exampleCmd\<lparr>outputDirectory := ''_output/mycluster'',
                        caCertificatePath := ''ca.crt'', caPrivateKeyPath := ''pki''\<rparr>)
   \<and> containerService
        (exampleCmd\<lparr>outputDirectory := ''_output/mycluster'',
                    caCertificatePath := ''ca.crt'', caPrivateKeyPath := ''pki''\<rparr>) =
      containerService (exampleCmd\<lparr>caCertificatePath := ''ca.crt'', caPrivateKeyPath := ''pki''\<rparr>)"
proof -
  have h: "validatef exampleDisk
             (exampleCmd\<lparr>caCertificatePath := ''ca.crt'', caPrivateKeyPath := ''pki''\<rparr>) =
     Return (Some (Errorf ''failed to read CA private key file: read pki: is a directory''),
             exampleCmd\<lparr>outputDirectory := ''_output/mycluster'',
                        caCertificatePath := ''ca.crt'', caPrivateKeyPath := ''pki''\<rparr>)"
    by (simp add: validatef_def os_IsNotExist_Stat exampleDisk_def exampleCmd_def
        newGenerateCmdStruct_def deriveOutputDirectory_def exampleProps_def
        path_Join_def path_Clean_def consumeCAPaths_def ioutil_ReadFile_def os_Open_def)
  from h validatef_error_keeps_model [OF h] show ?thesis by simp
qed

subsection \<open>The CA paths\<close>

text \<open>
  Claim C2, amended. When exactly one of the two CA paths is set, the api model path is
  not missing and the output directory is given or can be derived, \<^verbatim>\<open>validatef\<close>
  returns the error whose message is \<^verbatim>\<open>--ca-certificate-path and
  --ca-private-key-path must be specified together\<close>, which names both flags.
\<close>

theorem unpaired_CA_paths_rejected:
  assumes "(caCertificatePath gc \<noteq> [] \<and> caPrivateKeyPath gc = [])
           \<or> (caCertificatePath gc = [] \<and> caPrivateKeyPath gc \<noteq> [])"
    and "files w (apimodelPath gc) \<noteq> Missing"
    and "deriveOutputDirectory gc = Return gc1"
  shows "validatef w gc =
           Return (Some (New
             ''--ca-certificate-path and --ca-private-key-path must be specified together''), gc1)
         \<and> sublist ''--ca-certificate-path''
             ''--ca-certificate-path and --ca-private-key-path must be specified together''
         \<and> sublist ''--ca-private-key-path''
             ''--ca-certificate-path and --ca-private-key-path must be specified together''"
proof -
  from assms(1,3) have
    "(caCertificatePath gc1 \<noteq> [] \<and> caPrivateKeyPath gc1 = [])
      \<or> (caCertificatePath gc1 = [] \<and> caPrivateKeyPath gc1 \<noteq> [])"
    by (simp add: deriveOutputDirectory_paths)
  then have "consumeCAPaths w gc1 =
     Return (Some (New
       ''--ca-certificate-path and --ca-private-key-path must be specified together''), gc1)"
    by (simp add: consumeCAPaths_def)
  with assms(2,3) have 1: "validatef w gc =
     Return (Some (New
       ''--ca-certificate-path and --ca-private-key-path must be specified together''), gc1)"
    by (simp add: validatef_def os_IsNotExist_Stat)
  have 2: "sublist ''--ca-certificate-path''
             ''--ca-certificate-path and --ca-private-key-path must be specified together''"
    by (simp add: sublist_Cons_right)
  have 3: "sublist ''--ca-private-key-path''
             ''--ca-certificate-path and --ca-private-key-path must be specified together''"
    by (simp add: sublist_Cons_right)
  from 1 2 3 show ?thesis by blast
qed

theorem unpaired_CA_paths_rejected_witness:
  "caCertificatePath (exampleCmd\<lparr>outputDirectory := ''out'', caPrivateKeyPath := ''ca.key''\<rparr>) = []
   \<and> caPrivateKeyPath (exampleCmd\<lparr>outputDirectory := ''out'', caPrivateKeyPath := ''ca.key''\<rparr>) \<noteq> []
   \<and> files exampleDisk ''apimodel.json'' \<noteq> Missing
   \<and> validatef exampleDisk (exampleCmd\<lparr>outputDirectory := ''out'', caPrivateKeyPath := ''ca.key''\<rparr>) =
       Return (Some (New
         ''--ca-certificate-path and --ca-private-key-path must be specified together''),
         exampleCmd\<lparr>outputDirectory := ''out'', caPrivateKeyPath := ''ca.key''\<rparr>)"
proof -
  let ?gc = "exampleCmd\<lparr>outputDirectory := ''out'', caPrivateKeyPath := ''ca.key''\<rparr>"
  have a: "(caCertificatePath ?gc \<noteq> [] \<and> caPrivateKeyPath ?gc = [])
           \<or> (caCertificatePath ?gc = [] \<and> caPrivateKeyPath ?gc \<noteq> [])"
    by (simp add: exampleCmd_def newGenerateCmdStruct_def)
  have b: "files exampleDisk (apimodelPath ?gc) \<noteq> Missing"
    by (simp add: exampleCmd_def newGenerateCmdStruct_def exampleDisk_def)
  have c: "deriveOutputDirectory ?gc = Return ?gc"
    by (simp add: deriveOutputDirectory_def)
  from unpaired_CA_paths_rejected [OF a b c] a b show ?thesis
    by (simp add: exampleCmd_def newGenerateCmdStruct_def)
qed

text \<open>
  The claim as it stands fails where the api model path is missing: the existence check
  comes first and its error is returned, although only the certificate path is set.
\<close>

theorem unpaired_CA_paths_counterexample:
  "caCertificatePath (exampleCmd\<lparr>apimodelPath := ''nowhere.json'', caCertificatePath := ''ca.crt''\<rparr>)
     \<noteq> []
   \<and> caPrivateKeyPath (exampleCmd\<lparr>apimodelPath := ''nowhere.json'', caCertificatePath := ''ca.crt''\<rparr>)
     = []
   \<and> validatef exampleDisk
       (exampleCmd\<lparr>apimodelPath := ''nowhere.json'', caCertificatePath := ''ca.crt''\<rparr>) =
     Return (Some (Errorf ''specified api model does not exist (nowhere.json)''),
             exampleCmd\<lparr>apimodelPath := ''nowhere.json'', caCertificatePath := ''ca.crt''\<rparr>)"
  by (simp add: validatef_def os_IsNotExist_Stat exampleDisk_def exampleCmd_def
      newGenerateCmdStruct_def)

text \<open>
  Claim C3, amended. When both CA paths are set, the api model path is not missing and
  the output directory is given or can be derived: if both files are read and a model
  with properties is loaded, \<^verbatim>\<open>validatef\<close> succeeds, and the certificate profile
  (a fresh one if there was none) holds exactly the bytes of the two files; if the
  certificate cannot be read, or the certificate can and the key cannot, it returns the
  read-failure error of that file.
\<close>

theorem paired_CA_paths_populate:
  assumes "caCertificatePath gc \<noteq> []" and "caPrivateKeyPath gc \<noteq> []"
    and "files w (apimodelPath gc) \<noteq> Missing"
    and "deriveOutputDirectory gc = Return gc1"
  shows
    "(\<forall>c k cs prop.
        ioutil_ReadFile w (caCertificatePath gc) = Inr c
        \<and> ioutil_ReadFile w (caPrivateKeyPath gc) = Inr k
        \<and> containerService gc = Some cs \<and> Properties cs = Some prop \<longrightarrow>
        validatef w gc =
          Return (None, gc1\<lparr>containerService := Some (cs\<lparr>Properties := Some
            (prop\<lparr>CertificateProfile := Some
               ((case CertificateProfile prop of
                   None \<Rightarrow> newCertificateProfile | Some cp \<Rightarrow> cp)
                \<lparr>CaCertificate := c, CaPrivateKey := k\<rparr>)\<rparr>)\<rparr>)\<rparr>))
     \<and> (\<forall>e. ioutil_ReadFile w (caCertificatePath gc) = Inl e \<longrightarrow>
        validatef w gc =
          Return (Some (Errorf (''failed to read CA certificate file: '' @ os_Error e)), gc1))
     \<and> (\<forall>c e.
        ioutil_ReadFile w (caCertificatePath gc) = Inr c
        \<and> ioutil_ReadFile w (caPrivateKeyPath gc) = Inl e \<longrightarrow>
        validatef w gc =
          Return (Some (Errorf (''failed to read CA private key file: '' @ os_Error e)), gc1))"
proof -
  from assms(4) have p: "caCertificatePath gc1 = caCertificatePath gc"
      "caPrivateKeyPath gc1 = caPrivateKeyPath gc"
    and m: "containerService gc1 = containerService gc"
    by (simp_all add: deriveOutputDirectory_paths deriveOutputDirectory_containerService)
  from assms(3,4) have v: "validatef w gc = consumeCAPaths w gc1"
    by (simp add: validatef_def os_IsNotExist_Stat)
  show ?thesis
    using assms(1,2) p m unfolding v
    by (simp add: consumeCAPaths_def Let_def)
qed

text \<open>
  Three runs on the example disk, with the output directory given: both files read; the
  certificate file is missing; the key path is a directory.
\<close>

theorem paired_CA_paths_populate_witness:
  "validatef exampleDisk
     (exampleCmd\<lparr>outputDirectory := ''out'', caCertificatePath := ''ca.crt'',
                 caPrivateKeyPath := ''ca.key''\<rparr>) =
     Return (None,
       exampleCmd\<lparr>outputDirectory := ''out'', caCertificatePath := ''ca.crt'',
                   caPrivateKeyPath := ''ca.key'',
                   containerService := Some \<lparr>Properties = Some
                     (exampleProps\<lparr>CertificateProfile :=
                        Some \<lparr>CaCertificate = ''CERT'', CaPrivateKey = ''KEY''\<rparr>\<rparr>)\<rparr>\<rparr>)
   \<and> validatef exampleDisk
     (exampleCmd\<lparr>outputDirectory := ''out'', caCertificatePath := ''gone.crt'',
                 caPrivateKeyPath := ''ca.key''\<rparr>) =
     Return (Some (Errorf
       ''failed to read CA certificate file: open gone.crt: no such file or directory''),
       exampleCmd\<lparr>outputDirectory := ''out'', caCertificatePath := ''gone.crt'',
                   caPrivateKeyPath := ''ca.key''\<rparr>)
   \<and> validatef exampleDisk
     (exampleCmd\<lparr>outputDirectory := ''out'', caCertificatePath := ''ca.crt'',
                 caPrivateKeyPath := ''pki''\<rparr>) =
     Return (Some (Errorf ''failed to read CA private key file: read pki: is a directory''),
       exampleCmd\<lparr>outputDirectory := ''out'', caCertificatePath := ''ca.crt'',
                   caPrivateKeyPath := ''pki''\<rparr>)"
proof -
  let ?a = "exampleCmd\<lparr>outputDirectory := ''out'', caCertificatePath := ''ca.crt'',
                       caPrivateKeyPath := ''ca.key''\<rparr>"
  let ?b = "exampleCmd\<lparr>outputDirectory := ''out'', caCertificatePath := ''gone.crt'',
                       caPrivateKeyPath := ''ca.key''\<rparr>"
  let ?c = "exampleCmd\<lparr>outputDirectory := ''out'', caCertificatePath := ''ca.crt'',
                       caPrivateKeyPath := ''pki''\<rparr>"
  have e: "files exampleDisk ''apimodel.json'' \<noteq> Missing"
    by (simp add: exampleDisk_def)
  have p: "apimodelPath ?a = ''apimodel.json''" "apimodelPath ?b = ''apimodel.json''"
      "apimodelPath ?c = ''apimodel.json''"
    by (simp_all add: exampleCmd_def newGenerateCmdStruct_def)
  have r: "ioutil_ReadFile exampleDisk ''ca.crt'' = Inr ''CERT''"
      "ioutil_ReadFile exampleDisk ''ca.key'' = Inr ''KEY''"
      "ioutil_ReadFile exampleDisk ''gone.crt'' = Inl (PathError ''open'' ''gone.crt'' ENOENT)"
      "ioutil_ReadFile exampleDisk ''pki'' = Inl (PathError ''read'' ''pki'' EISDIR)"
    by (simp_all add: ioutil_ReadFile_def os_Open_def exampleDisk_def)
  have m: "containerService exampleCmd = Some \<lparr>Properties = Some exampleProps\<rparr>"
    by (simp add: exampleCmd_def newGenerateCmdStruct_def)
  have n: "CertificateProfile exampleProps = None"
    by (simp add: exampleProps_def)
  have 1: "validatef exampleDisk ?a =
     Return (None, ?a\<lparr>containerService := Some \<lparr>Properties = Some
       (exampleProps\<lparr>CertificateProfile :=
          Some \<lparr>CaCertificate = ''CERT'', CaPrivateKey = ''KEY''\<rparr>\<rparr>)\<rparr>\<rparr>)"
    using paired_CA_paths_populate [of ?a exampleDisk ?a] e p r m n
    by (simp add: deriveOutputDirectory_def newCertificateProfile_def)
  have 2: "validatef exampleDisk ?b =
     Return (Some (Errorf
       ''failed to read CA certificate file: open gone.crt: no such file or directory''), ?b)"
    using paired_CA_paths_populate [of ?b exampleDisk ?b] e p r
    by (simp add: deriveOutputDirectory_def)
  have 3: "validatef exampleDisk ?c =
     Return (Some (Errorf ''failed to read CA private key file: read pki: is a directory''), ?c)"
    using paired_CA_paths_populate [of ?c exampleDisk ?c] e p r
    by (simp add: deriveOutputDirectory_def)
  from 1 2 3 show ?thesis by simp
qed

text \<open>
  The claim as it stands fails where the api model path is missing: both CA files are
  there and a model is loaded, yet \<^verbatim>\<open>validatef\<close> returns the not-found error and the
  certificate profile stays absent.
\<close>

theorem paired_CA_paths_counterexample:
  "ioutil_ReadFile exampleDisk ''ca.crt'' = Inr ''CERT''
   \<and> ioutil_ReadFile exampleDisk ''ca.key'' = Inr ''KEY''
   \<and> validatef exampleDisk
       (exampleCmd\<lparr>apimodelPath := ''nowhere.json'', caCertificatePath := ''ca.crt'',
                   caPrivateKeyPath := ''ca.key''\<rparr>) =
     Return (Some (Errorf ''specified api model does not exist (nowhere.json)''),
       exampleCmd\<lparr>apimodelPath := ''nowhere.json'', caCertificatePath := ''ca.crt'',
                   caPrivateKeyPath := ''ca.key''\<rparr>)
   \<and> containerService
       (exampleCmd\<lparr>apimodelPath := ''nowhere.json'', caCertificatePath := ''ca.crt'',
                   caPrivateKeyPath := ''ca.key''\<rparr>) =
     Some \<lparr>Properties = Some exampleProps\<rparr>
   \<and> CertificateProfile exampleProps = None"
  by (simp add: validatef_def os_IsNotExist_Stat exampleDisk_def exampleCmd_def
      newGenerateCmdStruct_def ioutil_ReadFile_def os_Open_def exampleProps_def)

subsection \<open>The output directory\<close>

text \<open>
  Claim C4, amended. When no output directory is given, the api model path is not missing
  and a model with properties is loaded, \<^verbatim>\<open>validatef\<close> returns with the output
  directory \<^verbatim>\<open>path.Join("_output", p)\<close>, where \<open>p\<close> is the DNS prefix of the managed
  master profile if there is one and of the hosted master profile otherwise. That is
  \<^verbatim>\<open>_output/p\<close> when \<open>p\<close> is a plain name, and \<^verbatim>\<open>_output\<close> when \<open>p\<close> is empty.
\<close>

theorem output_directory_derived:
  assumes "files w (apimodelPath gc) \<noteq> Missing" and "outputDirectory gc = []"
    and "containerService gc = Some cs" and "Properties cs = Some prop"
    and "MasterProfile prop = Some mp \<and> p = DNSPrefix mp
         \<or> MasterProfile prop = None \<and> HostedMasterProfile prop = Some hp \<and> p = HostedDNSPrefix hp"
  shows "\<exists>err gc'. validatef w gc = Return (err, gc')
           \<and> outputDirectory gc' = path_Join [''_output'', p]
           \<and> (plainName p \<longrightarrow> outputDirectory gc' = ''_output/'' @ p)
           \<and> (p = [] \<longrightarrow> outputDirectory gc' = ''_output'')"
proof -
  from validatef_derives [OF assms]
  obtain err gc' where v: "validatef w gc = Return (err, gc')"
    and o: "outputDirectory gc' = path_Join [''_output'', p]"
    by blast
  from o have "plainName p \<longrightarrow> outputDirectory gc' = ''_output/'' @ p"
    by (simp add: path_Join_plain)
  moreover from o have "p = [] \<longrightarrow> outputDirectory gc' = ''_output''"
    by (simp add: path_Join_empty)
  ultimately show ?thesis using v o by blast
qed

text \<open>A managed profile with prefix \<^verbatim>\<open>mycluster\<close>, and a hosted one with \<^verbatim>\<open>hosted\<close>.\<close>

theorem output_directory_derived_witness:
  "plainName ''mycluster'' \<and> plainName ''hosted''
   \<and> validatef exampleDisk exampleCmd =
       Return (None, exampleCmd\<lparr>outputDirectory := ''_output/mycluster''\<rparr>)
   \<and> validatef exampleDisk
       (exampleCmd\<lparr>containerService := Some \<lparr>Properties = Some hostedProps\<rparr>\<rparr>) =
       Return (None, exampleCmd\<lparr>outputDirectory := ''_output/hosted'',
                                containerService := Some \<lparr>Properties = Some hostedProps\<rparr>\<rparr>)"
proof -
  let ?h = "exampleCmd\<lparr>containerService := Some \<lparr>Properties = Some hostedProps\<rparr>\<rparr>"
  have n: "plainName ''mycluster''" "plainName ''hosted''"
    by (simp_all add: plainName_def)
  have e: "files exampleDisk (apimodelPath exampleCmd) \<noteq> Missing"
      "files exampleDisk (apimodelPath ?h) \<noteq> Missing"
    by (simp_all add: exampleDisk_def exampleCmd_def newGenerateCmdStruct_def)
  have o: "outputDirectory exampleCmd = []" "outputDirectory ?h = []"
    by (simp_all add: exampleCmd_def newGenerateCmdStruct_def)
  have m: "containerService exampleCmd = Some \<lparr>Properties = Some exampleProps\<rparr>"
      "containerService ?h = Some \<lparr>Properties = Some hostedProps\<rparr>"
    by (simp_all add: exampleCmd_def newGenerateCmdStruct_def)
  have q: "Properties \<lparr>Properties = Some exampleProps\<rparr> = Some exampleProps"
      "Properties \<lparr>Properties = Some hostedProps\<rparr> = Some hostedProps"
    by simp_all
  have a: "MasterProfile exampleProps = Some \<lparr>DNSPrefix = ''mycluster''\<rparr>
             \<and> ''mycluster'' = DNSPrefix \<lparr>DNSPrefix = ''mycluster''\<rparr>
           \<or> MasterProfile exampleProps = None
             \<and> HostedMasterProfile exampleProps = Some \<lparr>HostedDNSPrefix = ''hosted''\<rparr>
             \<and> ''mycluster'' = HostedDNSPrefix \<lparr>HostedDNSPrefix = ''hosted''\<rparr>"
    by (simp add: exampleProps_def)
  have b: "MasterProfile hostedProps = Some \<lparr>DNSPrefix = ''mycluster''\<rparr>
             \<and> ''hosted'' = DNSPrefix \<lparr>DNSPrefix = ''mycluster''\<rparr>
           \<or> MasterProfile hostedProps = None
             \<and> HostedMasterProfile hostedProps = Some \<lparr>HostedDNSPrefix = ''hosted''\<rparr>
             \<and> ''hosted'' = HostedDNSPrefix \<lparr>HostedDNSPrefix = ''hosted''\<rparr>"
    by (simp add: hostedProps_def exampleProps_def)
  have 1: "validatef exampleDisk exampleCmd =
       Return (None, exampleCmd\<lparr>outputDirectory := ''_output/mycluster''\<rparr>)"
    using output_directory_derived [OF e(1) o(1) m(1) q(1) a] n(1) e(1)
    by (simp add: validatef_def os_IsNotExist_Stat deriveOutputDirectory_def
        consumeCAPaths_def exampleCmd_def newGenerateCmdStruct_def exampleProps_def)
  have 2: "validatef exampleDisk ?h =
       Return (None, ?h\<lparr>outputDirectory := ''_output/hosted''\<rparr>)"
    using output_directory_derived [OF e(2) o(2) m(2) q(2) b] n(2) e(2)
    by (simp add: validatef_def os_IsNotExist_Stat deriveOutputDirectory_def
        consumeCAPaths_def exampleCmd_def newGenerateCmdStruct_def exampleProps_def
        hostedProps_def)
  from n 1 2 show ?thesis by (simp add: exampleCmd_def newGenerateCmdStruct_def)
qed

text \<open>
  The claim as it stands fails for an empty DNS prefix: \<^verbatim>\<open>path.Join\<close> ignores the
  empty element, and the output directory is the root itself, without a slash.
\<close>

theorem output_directory_counterexample:
  "validatef exampleDisk
     (exampleCmd\<lparr>containerService := Some \<lparr>Properties = Some
        (exampleProps\<lparr>MasterProfile := Some \<lparr>DNSPrefix = []\<rparr>\<rparr>)\<rparr>\<rparr>) =
   Return (None,
     exampleCmd\<lparr>outputDirectory := ''_output'',
                 containerService := Some \<lparr>Properties = Some
                   (exampleProps\<lparr>MasterProfile := Some \<lparr>DNSPrefix = []\<rparr>\<rparr>)\<rparr>\<rparr>)
   \<and> ''_output'' \<noteq> ''_output/'' @ []"
  by (simp add: validatef_def os_IsNotExist_Stat exampleDisk_def exampleCmd_def
      newGenerateCmdStruct_def deriveOutputDirectory_def exampleProps_def
      path_Join_def path_Clean_def consumeCAPaths_def)

text \<open>
  Claim C1, amended. When no output directory is given, the api model path is not missing
  and the loaded model has a managed or a hosted master profile, \<^verbatim>\<open>validatef\<close> does
  not panic; with the managed profile absent it takes the DNS prefix of the hosted
  profile; and the derivation returns no error of its own, whatever the prefix is, the
  empty one included: without CA paths the call succeeds.
\<close>

theorem hosted_profile_followed:
  assumes "files w (apimodelPath gc) \<noteq> Missing" and "outputDirectory gc = []"
    and "containerService gc = Some cs" and "Properties cs = Some prop"
    and "MasterProfile prop \<noteq> None \<or> HostedMasterProfile prop \<noteq> None"
  shows "validatef w gc \<noteq> Panic
     \<and> (\<forall>hp. MasterProfile prop = None \<and> HostedMasterProfile prop = Some hp \<longrightarrow>
          (\<exists>err gc'. validatef w gc = Return (err, gc')
             \<and> outputDirectory gc' = path_Join [''_output'', HostedDNSPrefix hp]))
     \<and> (caCertificatePath gc = [] \<and> caPrivateKeyPath gc = [] \<longrightarrow>
          (\<exists>gc'. validatef w gc = Return (None, gc')))"
proof -
  from deriveOutputDirectory_returns [OF assms(3-5)]
  obtain gc1 where d: "deriveOutputDirectory gc = Return gc1" by blast
  with assms(1) have v: "validatef w gc = consumeCAPaths w gc1"
    by (simp add: validatef_def os_IsNotExist_Stat)
  from d assms(3) have m: "containerService gc1 = Some cs"
    by (simp add: deriveOutputDirectory_containerService)
  from d have p: "caCertificatePath gc1 = caCertificatePath gc"
      "caPrivateKeyPath gc1 = caPrivateKeyPath gc"
    by (simp_all add: deriveOutputDirectory_paths)
  from consumeCAPaths_returns [OF m assms(4), of w] have 1: "consumeCAPaths w gc1 \<noteq> Panic"
    by auto
  have 2: "\<exists>err gc'. validatef w gc = Return (err, gc')
             \<and> outputDirectory gc' = path_Join [''_output'', HostedDNSPrefix hp]"
    if "MasterProfile prop = None \<and> HostedMasterProfile prop = Some hp" for hp
    using validatef_derives [OF assms(1-4), of mp "HostedDNSPrefix hp" hp for mp] that
    by blast
  have 3: "\<exists>gc'. validatef w gc = Return (None, gc')"
    if "caCertificatePath gc = [] \<and> caPrivateKeyPath gc = []"
    using that p unfolding v by (simp add: consumeCAPaths_def)
  from 1 2 3 show ?thesis unfolding v [symmetric] by blast
qed

text \<open>A hosted master profile whose DNS prefix is empty.\<close>

theorem hosted_profile_followed_witness:
  "validatef exampleDisk
     (exampleCmd\<lparr>containerService := Some \<lparr>Properties = Some
        (hostedProps\<lparr>HostedMasterProfile := Some \<lparr>HostedDNSPrefix = []\<rparr>\<rparr>)\<rparr>\<rparr>) \<noteq> Panic
   \<and> validatef exampleDisk
     (exampleCmd\<lparr>containerService := Some \<lparr>Properties = Some
        (hostedProps\<lparr>HostedMasterProfile := Some \<lparr>HostedDNSPrefix = []\<rparr>\<rparr>)\<rparr>\<rparr>) =
     Return (None,
       exampleCmd\<lparr>outputDirectory := ''_output'',
                   containerService := Some \<lparr>Properties = Some
                     (hostedProps\<lparr>HostedMasterProfile := Some \<lparr>HostedDNSPrefix = []\<rparr>\<rparr>)\<rparr>\<rparr>)"
proof -
  let ?hp0 = "hostedProps\<lparr>HostedMasterProfile := Some \<lparr>HostedDNSPrefix = []\<rparr>\<rparr>"
  let ?gc = "exampleCmd\<lparr>containerService := Some \<lparr>Properties = Some ?hp0\<rparr>\<rparr>"
  have e: "files exampleDisk (apimodelPath ?gc) \<noteq> Missing"
    by (simp add: exampleDisk_def exampleCmd_def newGenerateCmdStruct_def)
  have o: "outputDirectory ?gc = []"
    by (simp add: exampleCmd_def newGenerateCmdStruct_def)
  have m: "containerService ?gc = Some \<lparr>Properties = Some ?hp0\<rparr>"
    by simp
  have q: "Properties \<lparr>Properties = Some ?hp0\<rparr> = Some ?hp0"
    by simp
  have a: "MasterProfile ?hp0 \<noteq> None \<or> HostedMasterProfile ?hp0 \<noteq> None"
    by simp
  have 1: "validatef exampleDisk ?gc \<noteq> Panic"
    using hosted_profile_followed [OF e o m q a] by blast
  have 2: "validatef exampleDisk ?gc = Return (None, ?gc\<lparr>outputDirectory := ''_output''\<rparr>)"
    using e by (simp add: validatef_def os_IsNotExist_Stat deriveOutputDirectory_def
        consumeCAPaths_def exampleCmd_def newGenerateCmdStruct_def exampleProps_def
        hostedProps_def path_Join_def path_Clean_def)
  from 1 2 show ?thesis by (simp add: exampleCmd_def newGenerateCmdStruct_def)
qed

text \<open>
  The claim as it stands fails: with a managed master profile whose DNS prefix is empty
  and no hosted profile, no profile has a usable prefix, and \<^verbatim>\<open>validatef\<close> succeeds
  with the output directory \<^verbatim>\<open>_output\<close>; with neither profile it panics. No error is
  returned in either case.
\<close>

theorem no_usable_prefix_counterexample:
  "validatef exampleDisk
     (exampleCmd\<lparr>containerService := Some \<lparr>Properties = Some
        (exampleProps\<lparr>MasterProfile := Some \<lparr>DNSPrefix = []\<rparr>\<rparr>)\<rparr>,
        classicMode := True\<rparr>) =
   Return (None,
     exampleCmd\<lparr>outputDirectory := ''_output'',
                 containerService := Some \<lparr>Properties = Some
                   (exampleProps\<lparr>MasterProfile := Some \<lparr>DNSPrefix = []\<rparr>\<rparr>)\<rparr>,
                 classicMode := True\<rparr>)
   \<and> validatef exampleDisk
     (exampleCmd\<lparr>containerService := Some \<lparr>Properties = Some
        (exampleProps\<lparr>MasterProfile := None\<rparr>)\<rparr>\<rparr>) = Panic"
  by (simp add: validatef_def os_IsNotExist_Stat exampleDisk_def exampleCmd_def
      newGenerateCmdStruct_def deriveOutputDirectory_def exampleProps_def
      path_Join_def path_Clean_def consumeCAPaths_def)

subsection \<open>The overrides\<close>




text \<open>
  Claim C7. Applying the overrides is claimed never to fail. In the code it panics: the
  document \<^verbatim>\<open>{}\<close> is decoded without error into a model without a master
  profile, and \<^verbatim>\<open>NewGenerator\<close> then dereferences the nil pointer at line 70.
\<close>

theorem NewGenerator_panics_without_master_profile:
  "files exampleDisk (ApiConfPath exampleConf) = Regular ''{}''
   \<and> json_Unmarshal exampleExt ''{}'' = Inr \<lparr>APIVersion = [], Props = zeroProps\<rparr>
   \<and> MasterProfile zeroProps = None
   \<and> NewGenerator exampleExt exampleDisk exampleConf = Panic"
  by (simp add: NewGenerator_def os_Open_def exampleDisk_def exampleConf_def exampleExt_def
      applyOverrides_def Let_def zeroProps_def)

subsection \<open>The command line\<close>

text \<open>
  Claim C9, amended. On the command line the command starts without a container service
  and \<^verbatim>\<open>validate\<close> loads none. When the output directory flag is omitted, the
  translations load, the api model path is given by its flag or as the only positional
  argument, and that path is not missing, validation panics on the nil container
  service instead of returning an error.
\<close>

theorem cli_validate_panics:
  assumes "output_directory f = []" and "LoadTranslations x = (loc, None)"
    and "api_model f \<noteq> [] \<and> p = api_model f \<or> api_model f = [] \<and> args = [p]"
    and "files w p \<noteq> Missing"
  shows "containerService (bindFlags f) = None \<and> RunE_validate x w f args = Panic"
  using assms
  by (auto simp: RunE_validate_def validate_def bindFlags_def newGenerateCmdStruct_def
      validatef_def os_IsNotExist_Stat deriveOutputDirectory_def Let_def)

theorem cli_validate_panics_witness:
  "RunE_validate exampleExt exampleDisk exampleFlags [''apimodel.json''] = Panic
   \<and> RunE_validate exampleExt exampleDisk
       (exampleFlags\<lparr>api_model := ''apimodel.json'', ca_certificate_path := ''ca.crt''\<rparr>) [] = Panic"
proof -
  let ?f = "exampleFlags\<lparr>api_model := ''apimodel.json'', ca_certificate_path := ''ca.crt''\<rparr>"
  have o: "output_directory exampleFlags = []" "output_directory ?f = []"
    by (simp_all add: exampleFlags_def)
  have l: "LoadTranslations exampleExt = (Some ''en_US'', None)"
    by (simp add: exampleExt_def)
  have a: "api_model exampleFlags \<noteq> [] \<and> ''apimodel.json'' = api_model exampleFlags
           \<or> api_model exampleFlags = [] \<and> [''apimodel.json''] = [''apimodel.json'']"
    by (simp add: exampleFlags_def)
  have b: "api_model ?f \<noteq> [] \<and> ''apimodel.json'' = api_model ?f
           \<or> api_model ?f = [] \<and> [] = [''apimodel.json'']"
    by simp
  have e: "files exampleDisk ''apimodel.json'' \<noteq> Missing"
    by (simp add: exampleDisk_def)
  from cli_validate_panics [OF o(1) l a e] cli_validate_panics [OF o(2) l b e]
  show ?thesis by simp
qed

text \<open>
  The claim as it stands fails for an invocation that is stopped before the output
  directory is derived: without an api model path \<^verbatim>\<open>validate\<close> returns an error.
\<close>

theorem cli_validate_counterexample:
  "output_directory exampleFlags = []
   \<and> RunE_validate exampleExt exampleDisk exampleFlags [] =
     Return (Some (New
       ''--api-model was not supplied, nor was one specified as a positional argument''),
       (bindFlags exampleFlags)\<lparr>gcLocale := Some ''en_US''\<rparr>)"
  by (simp add: RunE_validate_def validate_def bindFlags_def newGenerateCmdStruct_def
      exampleFlags_def exampleExt_def Let_def)

end
